theory Spec2Isabelle
  imports Complex_Main "HOL-Library.Word"
begin

unbundle bit_operations_syntax

section \<open>IEEE 754 binary32 arithmetic\<close>

text \<open>
  The C++ type \<open>float\<close> of linmath.hpp is IEEE 754 binary32, evaluated in round-to-nearest,
  ties-to-even, without extended precision. \<open>fadd\<close>, \<open>fsub\<close>, \<open>fmul\<close> and \<open>fdiv\<close> round
  each operation on its own; \<open>ffma\<close> is the fused multiply-add that a compiler may put in the
  place of a product and the addition that consumes it (floating-point contraction), rounded
  once. A value is a NaN, a signed infinity, or a sign with a magnitude;
  the magnitude of a float is a rational number, the sign is kept apart so that \<open>+0\<close> and
  \<open>-0\<close> are two values. The sign and the payload of a NaN are not tracked: all NaNs are one
  value.
\<close>

datatype float32 = NaN | Infty bool | Num bool rat

definition pow2 :: "int \<Rightarrow> rat" where
  "pow2 e = (if 0 \<le> e then 2 ^ nat e else 1 / 2 ^ nat (- e))"

text \<open>
  \<open>expo m\<close> is the binary exponent of a magnitude below \<open>2^130\<close>, never less than the
  exponent \<open>-126\<close> of the subnormal numbers: the largest \<open>e\<close> from \<open>-126\<close> on with
  \<open>2^e \<le> m\<close>, found by bisection.
\<close>

primrec expo_search :: "int list \<Rightarrow> int \<Rightarrow> rat \<Rightarrow> int" where
  "expo_search [] lo m = lo"
| "expo_search (d # ds) lo m =
     (if pow2 (lo + d) \<le> m then expo_search ds (lo + d) m else expo_search ds lo m)"

definition expo :: "rat \<Rightarrow> int" where
  "expo m = expo_search [128, 64, 32, 16, 8, 4, 2, 1] (- 126) m"

text \<open>Rounding to the nearest integer, ties to the even one.\<close>

definition rne :: "rat \<Rightarrow> int" where
  "rne x = (let f = \<lfloor>x\<rfloor>; d = x - of_int f
            in if d < 1 / 2 then f else if 1 / 2 < d then f + 1
               else if even f then f else f + 1)"

text \<open>
  \<open>round_mag m\<close> rounds a magnitude to binary32: 24 significant bits, the exponent of the
  last place never below \<open>-149\<close> (subnormal numbers), and \<open>None\<close> (overflow) from the
  midpoint between the largest float and \<open>2^128\<close> on.
\<close>

definition round_mag :: "rat \<Rightarrow> rat option" where
  "round_mag m =
     (if 2 ^ 128 - 2 ^ 103 \<le> m then None
      else let q = pow2 (expo m - 23)
           in Some (of_int (rne (m / q)) * q))"

definition rnd :: "bool \<Rightarrow> rat \<Rightarrow> float32" where
  "rnd s m = (case round_mag m of None \<Rightarrow> Infty s | Some r \<Rightarrow> Num s r)"

text \<open>A literal of the source (\<open>6.28318530718f\<close>, \<open>T(1e-6)\<close>) is the float nearest to it.\<close>

definition f32 :: "rat \<Rightarrow> float32" where
  "f32 r = (if r = 0 then Num False 0 else rnd (r < 0) \<bar>r\<bar>)"

definition fzero :: float32 where
  "fzero = Num False 0"

definition sval :: "bool \<Rightarrow> rat \<Rightarrow> rat" where
  "sval s m = (if s then - m else m)"

fun fneg :: "float32 \<Rightarrow> float32" where
  "fneg NaN = NaN"
| "fneg (Infty s) = Infty (\<not> s)"
| "fneg (Num s m) = Num (\<not> s) m"

fun fadd :: "float32 \<Rightarrow> float32 \<Rightarrow> float32" where
  "fadd NaN b = NaN"
| "fadd a NaN = NaN"
| "fadd (Infty s) (Infty t) = (if s = t then Infty s else NaN)"
| "fadd (Infty s) (Num t n) = Infty s"
| "fadd (Num s m) (Infty t) = Infty t"
| "fadd (Num s m) (Num t n) =
     (let r = sval s m + sval t n
      in if r = 0 then Num (s \<and> t) 0 else rnd (r < 0) \<bar>r\<bar>)"

definition fsub :: "float32 \<Rightarrow> float32 \<Rightarrow> float32" where
  "fsub a b = fadd a (fneg b)"

fun fmul :: "float32 \<Rightarrow> float32 \<Rightarrow> float32" where
  "fmul NaN b = NaN"
| "fmul a NaN = NaN"
| "fmul (Infty s) (Infty t) = Infty (s \<noteq> t)"
| "fmul (Infty s) (Num t n) = (if n = 0 then NaN else Infty (s \<noteq> t))"
| "fmul (Num s m) (Infty t) = (if m = 0 then NaN else Infty (s \<noteq> t))"
| "fmul (Num s m) (Num t n) = rnd (s \<noteq> t) (m * n)"

fun fdiv :: "float32 \<Rightarrow> float32 \<Rightarrow> float32" where
  "fdiv NaN b = NaN"
| "fdiv a NaN = NaN"
| "fdiv (Infty s) (Infty t) = NaN"
| "fdiv (Infty s) (Num t n) = Infty (s \<noteq> t)"
| "fdiv (Num s m) (Infty t) = Num (s \<noteq> t) 0"
| "fdiv (Num s m) (Num t n) =
     (if n = 0 then (if m = 0 then NaN else Infty (s \<noteq> t))
      else rnd (s \<noteq> t) (m / n))"

text \<open>
  \<open>ffma a b c\<close> is \<open>a * b + c\<close> with the exact product and one rounding. An exact zero has
  the sign of the product when \<open>c\<close> is a zero of that sign, and is \<open>+0\<close> otherwise; with a
  NaN or an infinity among \<open>a\<close> and \<open>b\<close> the product is not rounded anyway.
\<close>

fun ffma :: "float32 \<Rightarrow> float32 \<Rightarrow> float32 \<Rightarrow> float32" where
  "ffma (Num s m) (Num t n) (Num u k) =
     (let r = sval s m * sval t n + sval u k
      in if r = 0 then Num ((s \<noteq> t) \<and> u) 0 else rnd (r < 0) \<bar>r\<bar>)"
| "ffma (Num s m) (Num t n) c = c"
| "ffma a b c = fadd (fmul a b) c"

text \<open>The comparisons \<open><\<close> and \<open>==\<close> of C++: false on a NaN, and \<open>-0 == +0\<close>.\<close>

fun flt :: "float32 \<Rightarrow> float32 \<Rightarrow> bool" where
  "flt NaN b = False"
| "flt a NaN = False"
| "flt (Infty s) (Infty t) = (s \<and> \<not> t)"
| "flt (Infty s) (Num t n) = s"
| "flt (Num s m) (Infty t) = (\<not> t)"
| "flt (Num s m) (Num t n) = (sval s m < sval t n)"

fun feq :: "float32 \<Rightarrow> float32 \<Rightarrow> bool" where
  "feq NaN b = False"
| "feq a NaN = False"
| "feq (Infty s) (Infty t) = (s = t)"
| "feq (Infty s) (Num t n) = False"
| "feq (Num s m) (Infty t) = False"
| "feq (Num s m) (Num t n) = (sval s m = sval t n)"

definition fle :: "float32 \<Rightarrow> float32 \<Rightarrow> bool" where
  "fle a b = (flt a b \<or> feq a b)"

definition fgt :: "float32 \<Rightarrow> float32 \<Rightarrow> bool" where
  "fgt a b = flt b a"

definition fge :: "float32 \<Rightarrow> float32 \<Rightarrow> bool" where
  "fge a b = fle b a"

text \<open>
  The object representation of a float, which \<open>sqrtf\<close> reads through a union: sign bit,
  eight exponent bits biased by 127, 23 fraction bits. A NaN is written as the quiet NaN
  \<open>0x7fc00000\<close>.
\<close>

definition float_bits :: "float32 \<Rightarrow> 32 word" where
  "float_bits a =
     (case a of
        NaN \<Rightarrow> 0x7fc00000
      | Infty s \<Rightarrow> (if s then 0xff800000 else 0x7f800000)
      | Num s m \<Rightarrow>
          (if s then 0x80000000 else 0) OR
          (if m < pow2 (- 126) then word_of_int \<lfloor>m / pow2 (- 149)\<rfloor>
           else let e = expo m
                in push_bit 23 (word_of_int (e + 127)) OR
                   word_of_int (\<lfloor>m / pow2 (e - 23)\<rfloor> - 2 ^ 23)))"

definition bits_float :: "32 word \<Rightarrow> float32" where
  "bits_float u =
     (let s = bit u 31; e = uint (drop_bit 23 u AND 0xff); f = uint (u AND 0x7fffff)
      in if e = 255 then (if f = 0 then Infty s else NaN)
         else if e = 0 then Num s (of_int f * pow2 (- 149))
         else Num s (of_int (2 ^ 23 + f) * pow2 (e - 150)))"

text \<open>Finite floats, and the closeness of a float to a rational number.\<close>

definition is_finite :: "float32 \<Rightarrow> bool" where
  "is_finite a = (case a of Num s m \<Rightarrow> True | _ \<Rightarrow> False)"

definition near :: "rat \<Rightarrow> float32 \<Rightarrow> rat \<Rightarrow> bool" where
  "near eps a r = (case a of Num s m \<Rightarrow> abs (sval s m - r) \<le> eps | _ \<Rightarrow> False)"

text \<open>
  The datatype also has magnitudes that no float has. \<open>is_float32\<close> holds of the values
  of the type \<open>float\<close>: a magnitude is not negative and rounding leaves it as it is.
\<close>

definition is_float32 :: "float32 \<Rightarrow> bool" where
  "is_float32 a = (case a of Num s m \<Rightarrow> 0 \<le> m \<and> round_mag m = Some m | _ \<Rightarrow> True)"

section \<open>libc\_integration.hpp: the portable math primitives\<close>

definition PI :: float32 where
  "PI = f32 (314159265359 / 100000000000)"

definition PI_HALF :: float32 where
  "PI_HALF = f32 (157079632679 / 100000000000)"

definition PI_DOUBLE :: float32 where
  "PI_DOUBLE = f32 (628318530718 / 100000000000)"

text \<open>
  The two range-reduction loops of \<open>sinf\<close>. A loop that does not end is the value \<open>None\<close>.
\<close>

partial_function (option) sinf_reduce_ge :: "float32 \<Rightarrow> float32 option" where
  "sinf_reduce_ge X = (if fge X PI_DOUBLE then sinf_reduce_ge (fsub X PI_DOUBLE) else Some X)"

partial_function (option) sinf_reduce_lt :: "float32 \<Rightarrow> float32 option" where
  "sinf_reduce_lt X = (if flt X fzero then sinf_reduce_lt (fadd X PI_DOUBLE) else Some X)"

declare sinf_reduce_ge.simps [code]
declare sinf_reduce_lt.simps [code]

definition sinf :: "float32 \<Rightarrow> float32 option" where
  "sinf X =
     (let x2 = fmul X X
      in case sinf_reduce_ge X of None \<Rightarrow> None
         | Some X1 \<Rightarrow>
        (case sinf_reduce_lt X1 of None \<Rightarrow> None
         | Some X2 \<Rightarrow>
            let flip = fgt X2 PI;
                X3 = (if flip then fsub X2 PI else X2);
                X4 = (if fgt X3 PI_HALF then fsub PI X3 else X3);
                result = fmul X4 (fadd (fsub (f32 1) (fdiv x2 (f32 6)))
                                       (fdiv (fmul x2 x2) (f32 120)))
            in Some (if flip then fneg result else result)))"

definition cosf :: "float32 \<Rightarrow> float32 option" where
  "cosf X = sinf (fadd X PI_HALF)"

partial_function (option) tanf_reduce_gt :: "float32 \<Rightarrow> float32 option" where
  "tanf_reduce_gt X = (if fgt X PI then tanf_reduce_gt (fsub X PI_DOUBLE) else Some X)"

partial_function (option) tanf_reduce_lt :: "float32 \<Rightarrow> float32 option" where
  "tanf_reduce_lt X = (if flt X (fneg PI) then tanf_reduce_lt (fadd X PI_DOUBLE) else Some X)"

declare tanf_reduce_gt.simps [code]
declare tanf_reduce_lt.simps [code]

definition tanf :: "float32 \<Rightarrow> float32 option" where
  "tanf X =
     (let x2 = fmul X X
      in case tanf_reduce_gt X of None \<Rightarrow> None
         | Some X1 \<Rightarrow>
        (case tanf_reduce_lt X1 of None \<Rightarrow> None
         | Some X2 \<Rightarrow>
            Some (fadd X2
              (fmul (fmul X2 x2)
                 (fadd (fdiv (f32 1) (f32 3))
                    (fmul x2 (fadd (fdiv (f32 2) (f32 15))
                                (fmul x2 (fdiv (f32 17) (f32 315))))))))))"

definition sqrtf :: "float32 \<Rightarrow> float32" where
  "sqrtf X =
     (if fle X (f32 0) then f32 0
      else let x_half = fmul (f32 (1 / 2)) X;
               i = 0x5f3759df - drop_bit 1 (float_bits X);
               y = bits_float i;
               y' = fmul y (fsub (f32 (3 / 2)) (fmul (fmul x_half y) y))
           in fmul X y')"

section \<open>vec.hpp: the generic vector\<close>

text \<open>
  A \<open>vec<float, N>\<close> is the list of its \<open>N\<close> components; \<open>vec<T,N>{}\<close> is \<open>N\<close> zeros.
  Each loop \<open>for (i = 0; i < N; ++i)\<close> runs over \<open>[0..<N]\<close> in ascending order.
\<close>

type_synonym vec = "float32 list"

definition vec_add :: "vec \<Rightarrow> vec \<Rightarrow> vec" where
  "vec_add A B = map (\<lambda>i. fadd (A ! i) (B ! i)) [0..<length A]"

definition vec_sub :: "vec \<Rightarrow> vec \<Rightarrow> vec" where
  "vec_sub A B = map (\<lambda>i. fsub (A ! i) (B ! i)) [0..<length A]"

definition vec_scale :: "vec \<Rightarrow> float32 \<Rightarrow> vec" where
  "vec_scale V S = map (\<lambda>i. fmul (V ! i) S) [0..<length V]"

definition vec_neg :: "vec \<Rightarrow> vec" where
  "vec_neg V = map (\<lambda>i. fneg (V ! i)) [0..<length V]"

definition vec_dot :: "vec \<Rightarrow> vec \<Rightarrow> float32" where
  "vec_dot A B = foldl (\<lambda>res i. fadd res (fmul (A ! i) (B ! i))) fzero [0..<length A]"

definition vec_len :: "vec \<Rightarrow> float32" where
  "vec_len V = sqrtf (vec_dot V V)"

definition vec_norm :: "vec \<Rightarrow> vec" where
  "vec_norm V =
     (let LEN = vec_len V
      in if feq LEN (f32 0) then replicate (length V) fzero
         else vec_scale V (fdiv (f32 1) LEN))"

definition vec3_cross :: "vec \<Rightarrow> vec \<Rightarrow> vec" where
  "vec3_cross A B =
     [fsub (fmul (A ! 1) (B ! 2)) (fmul (A ! 2) (B ! 1)),
      fsub (fmul (A ! 2) (B ! 0)) (fmul (A ! 0) (B ! 2)),
      fsub (fmul (A ! 0) (B ! 1)) (fmul (A ! 1) (B ! 0))]"

text \<open>
  The SSE and NEON intrinsics of \<open>dot_sse2\<close> and \<open>dot_neon\<close> come from the compiler's
  headers; they are written here as their instruction references define them, on a
  register of four lanes (lane 0 first). \<open>_mm_loadu_ps\<close> and \<open>vld1q_f32\<close> read the four
  floats of a \<open>vec4\<close>.
\<close>

type_synonym m128 = "float32 list"

definition mm_loadu_ps :: "vec \<Rightarrow> m128" where
  "mm_loadu_ps p = [p ! 0, p ! 1, p ! 2, p ! 3]"

definition mm_set1_ps :: "float32 \<Rightarrow> m128" where
  "mm_set1_ps x = [x, x, x, x]"

definition mm_mul_ps :: "m128 \<Rightarrow> m128 \<Rightarrow> m128" where
  "mm_mul_ps a b = [fmul (a ! 0) (b ! 0), fmul (a ! 1) (b ! 1),
                    fmul (a ! 2) (b ! 2), fmul (a ! 3) (b ! 3)]"

definition mm_add_ps :: "m128 \<Rightarrow> m128 \<Rightarrow> m128" where
  "mm_add_ps a b = [fadd (a ! 0) (b ! 0), fadd (a ! 1) (b ! 1),
                    fadd (a ! 2) (b ! 2), fadd (a ! 3) (b ! 3)]"

definition MM_SHUFFLE :: "nat \<Rightarrow> nat \<Rightarrow> nat \<Rightarrow> nat \<Rightarrow> nat" where
  "MM_SHUFFLE z y x w = z * 64 + y * 16 + x * 4 + w"

definition mm_shuffle_ps :: "m128 \<Rightarrow> m128 \<Rightarrow> nat \<Rightarrow> m128" where
  "mm_shuffle_ps a b imm =
     [a ! (imm mod 4), a ! (imm div 4 mod 4), b ! (imm div 16 mod 4), b ! (imm div 64 mod 4)]"

definition mm_movehl_ps :: "m128 \<Rightarrow> m128 \<Rightarrow> m128" where
  "mm_movehl_ps a b = [b ! 2, b ! 3, a ! 2, a ! 3]"

definition mm_add_ss :: "m128 \<Rightarrow> m128 \<Rightarrow> m128" where
  "mm_add_ss a b = [fadd (a ! 0) (b ! 0), a ! 1, a ! 2, a ! 3]"

definition mm_cvtss_f32 :: "m128 \<Rightarrow> float32" where
  "mm_cvtss_f32 a = a ! 0"

definition dot_sse2 :: "vec \<Rightarrow> vec \<Rightarrow> float32" where
  "dot_sse2 a b =
     (let va = mm_loadu_ps a;
          vb = mm_loadu_ps b;
          mul = mm_mul_ps va vb;
          shuf = mm_shuffle_ps mul mul (MM_SHUFFLE 2 3 0 1);
          sums0 = mm_add_ps mul shuf;
          shuf1 = mm_movehl_ps shuf sums0;
          sums1 = mm_add_ss sums0 shuf1
      in mm_cvtss_f32 sums1)"

definition vld1q_f32 :: "vec \<Rightarrow> m128" where
  "vld1q_f32 p = [p ! 0, p ! 1, p ! 2, p ! 3]"

definition vmulq_f32 :: "m128 \<Rightarrow> m128 \<Rightarrow> m128" where
  "vmulq_f32 a b = [fmul (a ! 0) (b ! 0), fmul (a ! 1) (b ! 1),
                    fmul (a ! 2) (b ! 2), fmul (a ! 3) (b ! 3)]"

definition vget_low_f32 :: "m128 \<Rightarrow> float32 list" where
  "vget_low_f32 a = [a ! 0, a ! 1]"

definition vget_high_f32 :: "m128 \<Rightarrow> float32 list" where
  "vget_high_f32 a = [a ! 2, a ! 3]"

definition vadd_f32 :: "float32 list \<Rightarrow> float32 list \<Rightarrow> float32 list" where
  "vadd_f32 a b = [fadd (a ! 0) (b ! 0), fadd (a ! 1) (b ! 1)]"

definition vget_lane_f32 :: "float32 list \<Rightarrow> nat \<Rightarrow> float32" where
  "vget_lane_f32 a i = a ! i"

definition dot_neon :: "vec \<Rightarrow> vec \<Rightarrow> float32" where
  "dot_neon a b =
     (let va = vld1q_f32 a;
          vb = vld1q_f32 b;
          mul = vmulq_f32 va vb;
          sum = vadd_f32 (vget_low_f32 mul) (vget_high_f32 mul)
      in fadd (vget_lane_f32 sum 0) (vget_lane_f32 sum 1))"

section \<open>simd\_integration.hpp: the capability ceiling\<close>

text \<open>
  \<open>simd::max_level()\<close> is a process-wide cell that holds a \<open>level\<close>; the dispatching
  functions read it, so they take its value \<open>lvl\<close> as an argument. The macros
  \<open>__ARM_NEON\<close> and \<open>__SSE2__\<close> decide at compile time which cases of the \<open>switch\<close> exist;
  they are the two Boolean arguments \<open>ARM_NEON\<close> and \<open>SSE2\<close>.
\<close>

datatype level = none | sse2 | avx | avx2 | neon

definition vec4_dot :: "bool \<Rightarrow> bool \<Rightarrow> level \<Rightarrow> vec \<Rightarrow> vec \<Rightarrow> float32" where
  "vec4_dot ARM_NEON SSE2 lvl A B =
     (if ARM_NEON \<and> lvl = neon then dot_neon A B
      else if SSE2 \<and> (lvl = sse2 \<or> lvl = avx \<or> lvl = avx2) then dot_sse2 A B
      else vec_dot A B)"

section \<open>mat.hpp: column-major matrices\<close>

text \<open>
  A \<open>mat<float, C, R>\<close> is the list of its \<open>C\<close> columns, each a \<open>vec<float, R>\<close>;
  \<open>M[c][r] = x\<close> is \<open>mat_set M c r x\<close>.
\<close>

type_synonym mat = "float32 list list"

definition mat_set :: "mat \<Rightarrow> nat \<Rightarrow> nat \<Rightarrow> float32 \<Rightarrow> mat" where
  "mat_set M c r x = M[c := (M ! c)[r := x]]"

definition mat_identity :: "nat \<Rightarrow> mat" where
  "mat_identity N = map (\<lambda>i. map (\<lambda>j. if i = j then f32 1 else f32 0) [0..<N]) [0..<N]"

definition mat_mul :: "mat \<Rightarrow> mat \<Rightarrow> mat" where
  "mat_mul A B =
     (let N = length A
      in map (\<lambda>c. map (\<lambda>r. foldl (\<lambda>sum k. fadd sum (fmul (A ! k ! r) (B ! c ! k)))
                                fzero [0..<N]) [0..<N]) [0..<N])"

definition mat_mul_vec :: "mat \<Rightarrow> vec \<Rightarrow> vec" where
  "mat_mul_vec M V =
     (let N = length M
      in map (\<lambda>r. foldl (\<lambda>s c. fadd s (fmul (M ! c ! r) (V ! c))) fzero [0..<N]) [0..<N])"

definition mat4_mul_sse2 :: "mat \<Rightarrow> mat \<Rightarrow> mat" where
  "mat4_mul_sse2 A B =
     map (\<lambda>c. let bx = mm_set1_ps (B ! c ! 0);
                  by = mm_set1_ps (B ! c ! 1);
                  bz = mm_set1_ps (B ! c ! 2);
                  bw = mm_set1_ps (B ! c ! 3)
              in mm_add_ps
                   (mm_add_ps (mm_mul_ps (mm_loadu_ps (A ! 0)) bx)
                              (mm_mul_ps (mm_loadu_ps (A ! 1)) by))
                   (mm_add_ps (mm_mul_ps (mm_loadu_ps (A ! 2)) bz)
                              (mm_mul_ps (mm_loadu_ps (A ! 3)) bw)))
         [0..<4]"

definition vmulq_n_f32 :: "m128 \<Rightarrow> float32 \<Rightarrow> m128" where
  "vmulq_n_f32 a s = [fmul (a ! 0) s, fmul (a ! 1) s, fmul (a ! 2) s, fmul (a ! 3) s]"

definition vmlaq_n_f32 :: "m128 \<Rightarrow> m128 \<Rightarrow> float32 \<Rightarrow> m128" where
  "vmlaq_n_f32 a b s = [fadd (a ! 0) (fmul (b ! 0) s), fadd (a ! 1) (fmul (b ! 1) s),
                        fadd (a ! 2) (fmul (b ! 2) s), fadd (a ! 3) (fmul (b ! 3) s)]"

definition mat4_mul_neon :: "mat \<Rightarrow> mat \<Rightarrow> mat" where
  "mat4_mul_neon A B =
     map (\<lambda>c. let r0 = vmulq_n_f32 (vld1q_f32 (A ! 0)) (B ! c ! 0);
                  r1 = vmlaq_n_f32 r0 (vld1q_f32 (A ! 1)) (B ! c ! 1);
                  r2 = vmlaq_n_f32 r1 (vld1q_f32 (A ! 2)) (B ! c ! 2);
                  r3 = vmlaq_n_f32 r2 (vld1q_f32 (A ! 3)) (B ! c ! 3)
              in r3)
         [0..<4]"

definition mat4_mul :: "bool \<Rightarrow> bool \<Rightarrow> level \<Rightarrow> mat \<Rightarrow> mat \<Rightarrow> mat" where
  "mat4_mul ARM_NEON SSE2 lvl A B =
     (if ARM_NEON \<and> lvl = neon then mat4_mul_neon A B
      else if SSE2 \<and> (lvl = sse2 \<or> lvl = avx \<or> lvl = avx2) then mat4_mul_sse2 A B
      else mat_mul A B)"

definition mat4_translate :: "float32 \<Rightarrow> float32 \<Rightarrow> float32 \<Rightarrow> mat" where
  "mat4_translate x y z =
     (let M0 = mat_identity 4;
          M1 = mat_set M0 3 0 x;
          M2 = mat_set M1 3 1 y;
          M3 = mat_set M2 3 2 z
      in M3)"

text \<open>
  The rotations call \<open>sinf\<close> and \<open>cosf\<close>; they return nothing where a range-reduction loop
  does not end.
\<close>

definition mat4_rotate_x :: "float32 \<Rightarrow> mat option" where
  "mat4_rotate_x a =
     (case sinf a of None \<Rightarrow> None
      | Some s \<Rightarrow>
     (case cosf a of None \<Rightarrow> None
      | Some c \<Rightarrow>
         let M0 = mat_identity 4;
             M1 = mat_set M0 1 1 c;
             M2 = mat_set M1 2 1 (fneg s);
             M3 = mat_set M2 1 2 s;
             M4 = mat_set M3 2 2 c
         in Some M4))"

definition mat4_rotate_y :: "float32 \<Rightarrow> mat option" where
  "mat4_rotate_y a =
     (case sinf a of None \<Rightarrow> None
      | Some s \<Rightarrow>
     (case cosf a of None \<Rightarrow> None
      | Some c \<Rightarrow>
         let M0 = mat_identity 4;
             M1 = mat_set M0 0 0 c;
             M2 = mat_set M1 2 0 s;
             M3 = mat_set M2 0 2 (fneg s);
             M4 = mat_set M3 2 2 c
         in Some M4))"

section \<open>quat.hpp: quaternions\<close>

text \<open>
  \<open>quat_of<float>\<close> has the vector part \<open>v\<close> (a \<open>vec<float,3>\<close>) and the scalar part \<open>w\<close>;
  the fields are \<open>qv\<close> and \<open>qw\<close> here. \<open>quat_index\<close> is \<open>operator[]\<close>, its index a
  \<open>size_t\<close> of 64 bits.
\<close>

record quat =
  qv :: vec
  qw :: float32

definition quat_index :: "quat \<Rightarrow> 64 word \<Rightarrow> float32" where
  "quat_index Q i = (if i < 3 then qv Q ! unat i else qw Q)"

definition quat_identity :: quat where
  "quat_identity = \<lparr>qv = replicate 3 fzero, qw = f32 1\<rparr>"

definition quat_scale :: "quat \<Rightarrow> float32 \<Rightarrow> quat" where
  "quat_scale Q s = \<lparr>qv = vec_scale (qv Q) s, qw = fmul (qw Q) s\<rparr>"

definition quat_dot :: "quat \<Rightarrow> quat \<Rightarrow> float32" where
  "quat_dot A B = fadd (vec_dot (qv A) (qv B)) (fmul (qw A) (qw B))"

definition quat_len :: "quat \<Rightarrow> float32" where
  "quat_len Q = sqrtf (quat_dot Q Q)"

definition quat_norm :: "quat \<Rightarrow> quat" where
  "quat_norm Q =
     (let LEN = quat_len Q
      in if feq LEN (f32 0) then \<lparr>qv = replicate 3 fzero, qw = fzero\<rparr>
         else quat_scale Q (fdiv (f32 1) LEN))"

definition quat_conj :: "quat \<Rightarrow> quat" where
  "quat_conj Q = \<lparr>qv = vec_neg (qv Q), qw = qw Q\<rparr>"

text \<open>
  \<open>quat_mul\<close> returns \<open>{ vec3_cross(P.v,Q.v) + (P.v * Q.w) + (Q.v * P.w),
  (P.w * Q.w) - vec_dot(P.v,Q.v) }\<close>. Its operators are inlined, and what the expression
  computes depends on the build, so \<open>quat_mul\<close> takes the build's setting \<open>FP_CONTRACT\<close>.
  Without contraction every product and every sum is rounded. With contraction on a target
  that has a fused multiply-add (the default of GCC, \<open>-ffp-contract=fast\<close>), each product is
  fused into the addition or subtraction that consumes it: a difference of two products
  \<open>x*y - z*w\<close> rounds \<open>z*w\<close> and fuses \<open>x*y\<close>, and \<open>res += A[i] * B[i]\<close> is one fused
  operation.
\<close>

definition vec3_cross_fma :: "vec \<Rightarrow> vec \<Rightarrow> vec" where
  "vec3_cross_fma A B =
     [ffma (A ! 1) (B ! 2) (fneg (fmul (A ! 2) (B ! 1))),
      ffma (A ! 2) (B ! 0) (fneg (fmul (A ! 0) (B ! 2))),
      ffma (A ! 0) (B ! 1) (fneg (fmul (A ! 1) (B ! 0)))]"

definition vec_dot_fma :: "vec \<Rightarrow> vec \<Rightarrow> float32" where
  "vec_dot_fma A B = foldl (\<lambda>res i. ffma (A ! i) (B ! i) res) fzero [0..<length A]"

definition quat_mul :: "bool \<Rightarrow> quat \<Rightarrow> quat \<Rightarrow> quat" where
  "quat_mul FP_CONTRACT P Q =
     (if FP_CONTRACT
      then \<lparr>qv = map (\<lambda>i. ffma (qv Q ! i) (qw P)
                            (ffma (qv P ! i) (qw Q) (vec3_cross_fma (qv P) (qv Q) ! i)))
                     [0..<3],
            qw = ffma (qw P) (qw Q) (fneg (vec_dot_fma (qv P) (qv Q)))\<rparr>
      else \<lparr>qv = vec_add (vec_add (vec3_cross (qv P) (qv Q)) (vec_scale (qv P) (qw Q)))
                       (vec_scale (qv Q) (qw P)),
            qw = fsub (fmul (qw P) (qw Q)) (vec_dot (qv P) (qv Q))\<rparr>)"

text \<open>
  The six products of two different components that \<open>quat_mul(q, quat_conj(q))\<close> forms, up
  to their signs: three in the cross product and three in the scaling by \<open>w\<close>.
\<close>

definition mixed_products :: "quat \<Rightarrow> float32 list" where
  "mixed_products q =
     [fmul (qv q ! 1) (qv q ! 2), fmul (qv q ! 2) (qv q ! 0), fmul (qv q ! 0) (qv q ! 1),
      fmul (qv q ! 0) (qw q), fmul (qv q ! 1) (qw q), fmul (qv q ! 2) (qw q)]"

text \<open>
  The pivot loop of \<open>quat_from_mat4\<close>: \<open>r\<close> starts at \<open>T{}\<close>, \<open>p\<close> at \<open>{0,1,2}\<close>, and each
  diagonal entry greater than \<open>r\<close> replaces both. \<open>T(1e-6)\<close> is the float nearest to the
  double \<open>1e-6\<close>, which is the float nearest to \<open>1/10^6\<close>.
\<close>

definition pivot_step :: "mat \<Rightarrow> float32 \<times> nat list \<Rightarrow> nat \<Rightarrow> float32 \<times> nat list" where
  "pivot_step M rp i =
     (if fgt (M ! i ! i) (fst rp) then (M ! i ! i, [i, (i + 1) mod 3, (i + 2) mod 3])
      else rp)"

definition quat_from_mat4 :: "mat \<Rightarrow> quat" where
  "quat_from_mat4 M =
     (let p = snd (foldl (pivot_step M) (fzero, [0, 1, 2]) [0..<3]);
          r = sqrtf (fsub (fsub (fadd (f32 1) (M ! (p ! 0) ! (p ! 0)))
                                (M ! (p ! 1) ! (p ! 1)))
                          (M ! (p ! 2) ! (p ! 2)))
      in if flt r (f32 (1 / 1000000)) then \<lparr>qv = [f32 1, f32 0, f32 0], qw = f32 0\<rparr>
         else let inv = fdiv (f32 1) (fmul (f32 2) r)
              in \<lparr>qv = [fmul r (f32 (1 / 2)),
                        fmul (fsub (M ! (p ! 0) ! (p ! 1)) (M ! (p ! 1) ! (p ! 0))) inv,
                        fmul (fsub (M ! (p ! 2) ! (p ! 0)) (M ! (p ! 0) ! (p ! 2))) inv],
                  qw = fmul (fsub (M ! (p ! 2) ! (p ! 1)) (M ! (p ! 1) ! (p ! 2))) inv\<rparr>)"

section \<open>Evaluating float arithmetic\<close>

text \<open>
  The operations on literals are computed by rewriting with the definitions; the floor of
  a quotient of numerals is an integer division.
\<close>

lemma floor_rat_numeral: "\<lfloor>numeral a / numeral b :: rat\<rfloor> = numeral a div numeral b"
  using floor_divide_of_int_eq [of "numeral a" "numeral b", where ?'a = rat] by simp

lemma floor_rat_one: "\<lfloor>1 / numeral b :: rat\<rfloor> = 1 div numeral b"
  using floor_divide_of_int_eq [of 1 "numeral b", where ?'a = rat] by simp

lemmas float_eval =
  floor_rat_numeral floor_rat_one
  fsub_def fle_def fgt_def fge_def rnd_def round_mag_def expo_def pow2_def rne_def sval_def
  f32_def fzero_def Let_def

lemma f32_0: "f32 0 = fzero"
  by (simp add: f32_def fzero_def)

lemma PI_val: "PI = Num False (13176795 / 4194304)"
  by (simp add: PI_def float_eval)

lemma PI_HALF_val: "PI_HALF = Num False (13176795 / 8388608)"
  by (simp add: PI_HALF_def float_eval)

lemma PI_DOUBLE_val: "PI_DOUBLE = Num False (13176795 / 2097152)"
  by (simp add: PI_DOUBLE_def float_eval)

text \<open>
  Some known values: the bit patterns of \<open>1.0f\<close>, \<open>-2.0f\<close>, \<open>1.0f/3.0f\<close> and of the
  constant \<open>PI\<close>, the largest float and the smallest subnormal number, a tie that rounds
  to the even neighbour, and \<open>sqrtf(4.0f)\<close> after its single Newton step.
\<close>

lemma binary32_examples:
  "float_bits (f32 1) = 0x3f800000 \<and> float_bits (f32 (- 2)) = 0xc0000000 \<and>
   float_bits (fdiv (f32 1) (f32 3)) = 0x3eaaaaab \<and> float_bits PI = 0x40490fdb \<and>
   bits_float 0x7f7fffff = Num False (2 ^ 128 - 2 ^ 104) \<and>
   bits_float 1 = Num False (1 / 2 ^ 149) \<and>
   fadd (f32 16777216) (f32 1) = f32 16777216 \<and>
   fadd (f32 16777216) (f32 3) = f32 16777220 \<and>
   sqrtf (f32 4) = Num False (16748815 / 8388608)"
  by (simp add: float_bits_def bits_float_def sqrtf_def PI_val float_eval)

section \<open>Properties of the float arithmetic\<close>

















lemma rnd_finite: "is_finite (rnd s m) \<longleftrightarrow> m < 2 ^ 128 - 2 ^ 103"
  by (simp add: rnd_def round_mag_def is_finite_def Let_def)

lemma fneg_rnd: "fneg (rnd s m) = rnd (\<not> s) m"
  by (simp add: rnd_def split: option.splits)

lemma fneg_finite: "is_finite (fneg x) = is_finite x"
  by (cases x) (simp_all add: is_finite_def)

lemma fneg_float: "is_float32 (fneg x) = is_float32 x"
  by (cases x) (simp_all add: is_float32_def)


lemma fmul_commute: "fmul a b = fmul b a"
proof (cases a; cases b)
  fix s m t n
  assume "a = Num s m" and "b = Num t n"
  moreover have "(s \<noteq> t) = (t \<noteq> s)" by auto
  ultimately show ?thesis by (simp add: mult.commute)
qed auto

lemma fmul_fneg_right: "fmul a (fneg b) = fneg (fmul a b)"
  by (cases a; cases b) (auto simp: fneg_rnd)

lemma fmul_fneg_left: "fmul (fneg a) b = fneg (fmul a b)"
  by (cases a; cases b) (auto simp: fneg_rnd)






lemma fsub_self_not_finite: "\<not> is_finite x \<Longrightarrow> fsub x x = NaN"
  by (cases x) (simp_all add: is_finite_def fsub_def)


lemma add_cancel_not_finite: "\<not> is_finite y \<Longrightarrow> fadd (fadd x y) (fneg y) = NaN"
  by (cases x; cases y) (simp_all add: is_finite_def)

lemma rnd_not_NaN: "rnd s m \<noteq> NaN"
  by (simp add: rnd_def split: option.splits)









section \<open>Scenario: a = (1,2,3), b = (4,5,6)\<close>

text \<open>
  C7. For the float vectors \<open>a = (1,2,3)\<close> and \<open>b = (4,5,6)\<close>, \<open>vec_dot a b\<close> is exactly 32,
  \<open>vec_add a b\<close> is exactly \<open>(5,7,9)\<close> and \<open>vec3_cross a b\<close> is exactly \<open>(-3,6,-3)\<close>.
\<close>

theorem scenario_dot_add_cross:
  "vec_dot [f32 1, f32 2, f32 3] [f32 4, f32 5, f32 6] = f32 32 \<and>
   vec_add [f32 1, f32 2, f32 3] [f32 4, f32 5, f32 6] = [f32 5, f32 7, f32 9] \<and>
   vec3_cross [f32 1, f32 2, f32 3] [f32 4, f32 5, f32 6] = [f32 (- 3), f32 6, f32 (- 3)]"
  by (simp add: vec_dot_def vec_add_def vec3_cross_def upt_rec float_eval)

section \<open>Scenario: translate(1,2,3) applied to (1,2,3,1)\<close>

text \<open>
  C8. \<open>mat4_translate(1,2,3)\<close> multiplied by the vector \<open>(1,2,3,1)\<close> with \<open>mat_mul_vec\<close>
  is exactly \<open>(2,4,6,1)\<close>.
\<close>

theorem translate_scenario:
  "mat_mul_vec (mat4_translate (f32 1) (f32 2) (f32 3)) [f32 1, f32 2, f32 3, f32 1]
     = [f32 2, f32 4, f32 6, f32 1]"
  by (simp add: mat_mul_vec_def mat4_translate_def mat_identity_def mat_set_def upt_rec float_eval)

section \<open>Rotation about X by a quarter turn\<close>

lemma sinf_PI_HALF: "sinf PI_HALF = Some (Num False (8426565 / 8388608))"
  by (simp add: sinf_def sinf_reduce_ge.simps sinf_reduce_lt.simps
      PI_val PI_HALF_val PI_DOUBLE_val float_eval)

lemma cosf_PI_HALF: "cosf PI_HALF = Some (Num False 0)"
  by (simp add: cosf_def sinf_def sinf_reduce_ge.simps sinf_reduce_lt.simps
      PI_val PI_HALF_val PI_DOUBLE_val float_eval)

text \<open>
  C4, as stated: \<open>mat4_rotate_x(PI_HALF)\<close> applied with \<open>mat_mul_vec\<close> to \<open>(0,1,0,1)\<close> is
  within \<open>1e-5\<close> of \<open>(0,0,1,1)\<close> in each component. It is not: \<open>sinf\<close> is the Taylor
  polynomial of degree five, \<open>sinf(PI_HALF) = 8426565 / 8388608\<close> (about 1.0045), and that
  is the third component of the result.
\<close>

theorem rotate_x_not_within_1e5:
  "map_option (\<lambda>M. mat_mul_vec M [f32 0, f32 1, f32 0, f32 1]) (mat4_rotate_x PI_HALF)
     = Some [f32 0, f32 0, Num False (8426565 / 8388608), f32 1] \<and>
   \<not> near (1 / 100000) (Num False (8426565 / 8388608)) 1"
  by (simp add: mat4_rotate_x_def sinf_PI_HALF cosf_PI_HALF mat_mul_vec_def mat_identity_def
      mat_set_def near_def upt_rec float_eval)

text \<open>
  C4, amended: \<open>mat4_rotate_x(PI_HALF)\<close> applied with \<open>mat_mul_vec\<close> to \<open>(0,1,0,1)\<close> is
  \<open>(0, 0, z, 1)\<close> with the first, second and fourth component exact and \<open>z\<close> within
  \<open>1e-2\<close> of 1, the margin that test/main.cpp allows for the handcrafted \<open>sinf\<close>.
\<close>

theorem rotate_x_within_1e2:
  "map_option (\<lambda>M. mat_mul_vec M [f32 0, f32 1, f32 0, f32 1]) (mat4_rotate_x PI_HALF)
     = Some [f32 0, f32 0, Num False (8426565 / 8388608), f32 1] \<and>
   near (1 / 100) (Num False (8426565 / 8388608)) 1"
  by (simp add: mat4_rotate_x_def sinf_PI_HALF cosf_PI_HALF mat_mul_vec_def mat_identity_def
      mat_set_def near_def upt_rec float_eval)

section \<open>Range reduction of sinf and tanf\<close>

text \<open>
  A loop \<open>while (X >= PI_DOUBLE) X -= PI_DOUBLE\<close> whose body leaves \<open>X\<close> unchanged never
  ends.
\<close>

lemma sinf_reduce_ge_stuck:
  assumes "fge X PI_DOUBLE" and "fsub X PI_DOUBLE = X"
  shows "sinf_reduce_ge X = None"
proof (rule ccontr)
  assume "sinf_reduce_ge X \<noteq> None"
  then obtain y where y: "sinf_reduce_ge X = Some y" by auto
  have "X' \<noteq> X" if h: "sinf_reduce_ge X' = Some y'" for X' y'
  proof (rule sinf_reduce_ge.raw_induct [where P = "\<lambda>x y. x \<noteq> X", OF _ h])
    fix f Xa ya
    assume IH: "\<And>x y. f x = Some y \<Longrightarrow> x \<noteq> X"
      and step: "(if fge Xa PI_DOUBLE then f (fsub Xa PI_DOUBLE) else Some Xa) = Some ya"
    show "Xa \<noteq> X"
    proof
      assume "Xa = X"
      with step assms have "f X = Some ya" by simp
      with IH show False by blast
    qed
  qed
  with y show False by blast
qed

lemma tanf_reduce_gt_stuck:
  assumes "fgt X PI" and "fsub X PI_DOUBLE = X"
  shows "tanf_reduce_gt X = None"
proof (rule ccontr)
  assume "tanf_reduce_gt X \<noteq> None"
  then obtain y where y: "tanf_reduce_gt X = Some y" by auto
  have "X' \<noteq> X" if h: "tanf_reduce_gt X' = Some y'" for X' y'
  proof (rule tanf_reduce_gt.raw_induct [where P = "\<lambda>x y. x \<noteq> X", OF _ h])
    fix f Xa ya
    assume IH: "\<And>x y. f x = Some y \<Longrightarrow> x \<noteq> X"
      and step: "(if fgt Xa PI then f (fsub Xa PI_DOUBLE) else Some Xa) = Some ya"
    show "Xa \<noteq> X"
    proof
      assume "Xa = X"
      with step assms have "f X = Some ya" by simp
      with IH show False by blast
    qed
  qed
  with y show False by blast
qed

text \<open>
  C5. For every finite float \<open>X\<close> the range-reduction loops of \<open>sinf\<close> and \<open>tanf\<close> end.
  At \<open>X = 2^28\<close> they do not: \<open>2^28 - PI_DOUBLE\<close> rounds back to \<open>2^28\<close>, so the first
  loop of each function repeats the same state for ever.
\<close>

theorem range_reduction_hangs:
  "is_finite (f32 268435456) \<and>
   fsub (f32 268435456) PI_DOUBLE = f32 268435456 \<and>
   sinf (f32 268435456) = None \<and> tanf (f32 268435456) = None"
proof -
  have ge: "fge (f32 268435456) PI_DOUBLE"
    by (simp add: PI_DOUBLE_val float_eval)
  have gt: "fgt (f32 268435456) PI"
    by (simp add: PI_val float_eval)
  have same: "fsub (f32 268435456) PI_DOUBLE = f32 268435456"
    by (simp add: PI_DOUBLE_val float_eval)
  have fin: "is_finite (f32 268435456)"
    by (simp add: is_finite_def float_eval)
  have "sinf (f32 268435456) = None"
    by (simp add: sinf_def sinf_reduce_ge_stuck [OF ge same])
  moreover have "tanf (f32 268435456) = None"
    by (simp add: tanf_def tanf_reduce_gt_stuck [OF gt same])
  ultimately show ?thesis using same fin by simp
qed

section \<open>Square root and length of non-positive values\<close>

lemma foldl_fixed: "(\<And>x. x \<in> set xs \<Longrightarrow> f a x = a) \<Longrightarrow> foldl f a xs = a"
  by (induction xs) simp_all

lemma vec_dot_zero: "vec_dot (replicate N fzero) (replicate N fzero) = fzero"
  unfolding vec_dot_def
  by (rule foldl_fixed) (simp add: float_eval)

lemma fle_fzero: "fle fzero fzero"
  by (simp add: fle_def fzero_def)

text \<open>
  C9. For every float \<open>X \<le> 0\<close> (negative numbers, both zeros and minus infinity),
  \<open>sqrtf X\<close> is exactly \<open>0.0f\<close> and not a NaN; the length of the all-zero vector of any
  dimension is exactly 0.
\<close>

theorem sqrtf_nonpositive:
  "(fle X (f32 0) \<longrightarrow> sqrtf X = f32 0 \<and> sqrtf X \<noteq> NaN) \<and>
   vec_len (replicate N fzero) = f32 0"
proof -
  have "vec_len (replicate N fzero) = f32 0"
    by (simp add: vec_len_def vec_dot_zero sqrtf_def f32_0 fle_fzero)
  moreover have "f32 0 \<noteq> NaN"
    by (simp add: f32_def)
  ultimately show ?thesis
    by (simp add: sqrtf_def)
qed

theorem sqrtf_nonpositive_witness:
  "fle (f32 (- 4)) (f32 0) \<and> sqrtf (f32 (- 4)) = f32 0 \<and> sqrtf (f32 (- 4)) \<noteq> NaN \<and>
   fle (Infty True) (f32 0) \<and> sqrtf (Infty True) = f32 0 \<and>
   vec_len (replicate 3 fzero) = f32 0"
  using sqrtf_nonpositive [of "f32 (- 4)" 3] sqrtf_nonpositive [of "Infty True" 3]
  by (simp add: float_eval)

section \<open>Normalising a vector or quaternion of length zero\<close>

text \<open>
  C2. When \<open>vec_len V\<close> compares equal to zero, \<open>vec_norm V\<close> is the all-zero vector, and
  when \<open>quat_len Q\<close> compares equal to zero, \<open>quat_norm Q\<close> is the zero quaternion; every
  component of the result is finite (neither NaN nor an infinity).
\<close>

theorem normalize_zero_length:
  "(feq (vec_len V) (f32 0) \<longrightarrow>
      vec_norm V = replicate (length V) fzero \<and> list_all is_finite (vec_norm V)) \<and>
   (feq (quat_len Q) (f32 0) \<longrightarrow>
      quat_norm Q = \<lparr>qv = replicate 3 fzero, qw = fzero\<rparr> \<and>
      list_all is_finite (qv (quat_norm Q)) \<and> is_finite (qw (quat_norm Q)))"
  by (simp add: vec_norm_def quat_norm_def list_all_length is_finite_def fzero_def)

theorem normalize_zero_length_witness:
  "feq (vec_len [f32 (1 / 2 ^ 100), f32 0, f32 0]) (f32 0) \<and>
   vec_norm [f32 (1 / 2 ^ 100), f32 0, f32 0] = [fzero, fzero, fzero] \<and>
   feq (quat_len \<lparr>qv = [f32 0, f32 0, f32 0], qw = f32 (1 / 2 ^ 100)\<rparr>) (f32 0) \<and>
   quat_norm \<lparr>qv = [f32 0, f32 0, f32 0], qw = f32 (1 / 2 ^ 100)\<rparr>
     = \<lparr>qv = [fzero, fzero, fzero], qw = fzero\<rparr>"
proof -
  have v: "feq (vec_len [f32 (1 / 2 ^ 100), f32 0, f32 0]) (f32 0)"
    by (simp add: vec_len_def vec_dot_def sqrtf_def upt_rec float_eval)
  have q: "feq (quat_len \<lparr>qv = [f32 0, f32 0, f32 0], qw = f32 (1 / 2 ^ 100)\<rparr>) (f32 0)"
    by (simp add: quat_len_def quat_dot_def vec_dot_def sqrtf_def upt_rec float_eval)
  show ?thesis
    using v q
      normalize_zero_length [of "[f32 (1 / 2 ^ 100), f32 0, f32 0]"
        "\<lparr>qv = [f32 0, f32 0, f32 0], qw = f32 (1 / 2 ^ 100)\<rparr>"]
    by (simp add: numeral_3_eq_3)
qed

section \<open>Indexing a quaternion\<close>

text \<open>
  C10. For every quaternion \<open>Q\<close> and every index \<open>i\<close> of type \<open>size_t\<close>, \<open>Q[i]\<close> is the
  component \<open>Q.v[i]\<close> when \<open>i < 3\<close>, an access inside the three components, and \<open>Q.w\<close> for
  every \<open>i \<ge> 3\<close>.
\<close>

theorem quat_index_total:
  "length (qv Q) = 3 \<Longrightarrow>
   (i < 3 \<longrightarrow> unat i < length (qv Q) \<and> quat_index Q i = qv Q ! unat i) \<and>
   (3 \<le> i \<longrightarrow> quat_index Q i = qw Q)"
  by (auto simp: quat_index_def word_less_nat_alt word_le_nat_alt)

theorem quat_index_total_witness:
  "quat_index \<lparr>qv = [f32 1, f32 2, f32 3], qw = f32 4\<rparr> 1 = f32 2 \<and>
   quat_index \<lparr>qv = [f32 1, f32 2, f32 3], qw = f32 4\<rparr> 3 = f32 4 \<and>
   quat_index \<lparr>qv = [f32 1, f32 2, f32 3], qw = f32 4\<rparr> 0xFFFFFFFFFFFFFFFF = f32 4"
  using quat_index_total [of "\<lparr>qv = [f32 1, f32 2, f32 3], qw = f32 4\<rparr>" 1]
    quat_index_total [of "\<lparr>qv = [f32 1, f32 2, f32 3], qw = f32 4\<rparr>" 3]
    quat_index_total [of "\<lparr>qv = [f32 1, f32 2, f32 3], qw = f32 4\<rparr>" "0xFFFFFFFFFFFFFFFF"]
  by simp

section \<open>Quaternion from the identity matrix\<close>

text \<open>Whenever the pivot test fires, the result is the constant \<open>((1,0,0), 0)\<close>.\<close>

lemma quat_from_mat4_degenerate:
  "flt (sqrtf (fsub (fsub (fadd (f32 1) (M ! (p ! 0) ! (p ! 0))) (M ! (p ! 1) ! (p ! 1)))
                    (M ! (p ! 2) ! (p ! 2)))) (f32 (1 / 1000000)) \<Longrightarrow>
   p = snd (foldl (pivot_step M) (fzero, [0, 1, 2]) [0..<3]) \<Longrightarrow>
   quat_from_mat4 M = \<lparr>qv = [f32 1, f32 0, f32 0], qw = f32 0\<rparr>"
  by (simp add: quat_from_mat4_def Let_def)

text \<open>
  C3. When the pivot test of \<open>quat_from_mat4\<close> fires, the result is the identity quaternion
  \<open>((0,0,0), 1)\<close>. For the identity matrix the pivot is \<open>p = {0,1,2}\<close>, the radicand is
  \<open>1 + 1 - 1 - 1 = 0\<close>, the test fires, and the result is \<open>((1,0,0), 0)\<close>, which is not
  \<open>quat_identity\<close>.
\<close>

theorem quat_from_identity_matrix:
  "snd (foldl (pivot_step (mat_identity 4)) (fzero, [0, 1, 2]) [0..<3]) = [0, 1, 2] \<and>
   flt (sqrtf (fsub (fsub (fadd (f32 1) (mat_identity 4 ! 0 ! 0)) (mat_identity 4 ! 1 ! 1))
                    (mat_identity 4 ! 2 ! 2))) (f32 (1 / 1000000)) \<and>
   quat_from_mat4 (mat_identity 4) = \<lparr>qv = [f32 1, f32 0, f32 0], qw = f32 0\<rparr> \<and>
   quat_from_mat4 (mat_identity 4) \<noteq> quat_identity"
  by (simp add: quat_from_mat4_def pivot_step_def quat_identity_def sqrtf_def mat_identity_def
      upt_rec float_eval)

section \<open>The scalar and the SIMD paths\<close>

lemmas simd_eval =
  mm_loadu_ps_def mm_set1_ps_def mm_mul_ps_def mm_add_ps_def mm_shuffle_ps_def MM_SHUFFLE_def
  mm_movehl_ps_def mm_add_ss_def mm_cvtss_f32_def vld1q_f32_def vmulq_f32_def
  vget_low_f32_def vget_high_f32_def vadd_f32_def vget_lane_f32_def vmulq_n_f32_def
  vmlaq_n_f32_def

text \<open>
  The test "mat4 SIMD path equals scalar path" multiplies the rotation by 0.7 about X with
  the rotation by 1.3 about Y. Each sum of that product has at most one product that is
  not zero, so the order of the additions does not show, and the two paths agree there.
\<close>

lemmas trig_eval = sinf_def cosf_def sinf_reduce_ge.simps sinf_reduce_lt.simps
  PI_val PI_HALF_val PI_DOUBLE_val float_eval

lemma rotate_x_07:
  "mat4_rotate_x (f32 (7 / 10)) =
     Some [[Num False 1, Num False 0, Num False 0, Num False 0],
           [Num False 0, Num False (5167 / 16384), Num False (10808451 / 16777216), Num False 0],
           [Num False 0, Num True (10808451 / 16777216), Num False (5167 / 16384), Num False 0],
           [Num False 0, Num False 0, Num False 0, Num False 1]]"
  by (simp add: mat4_rotate_x_def mat_identity_def mat_set_def upt_rec trig_eval)

lemma rotate_y_13:
  "mat4_rotate_y (f32 (13 / 10)) =
     Some [[Num False (1748563 / 33554432), Num False 0, Num True (16186229 / 16777216), Num False 0],
           [Num False 0, Num False 1, Num False 0, Num False 0],
           [Num False (16186229 / 16777216), Num False 0, Num False (1748563 / 33554432), Num False 0],
           [Num False 0, Num False 0, Num False 0, Num False 1]]"
  by (simp add: mat4_rotate_y_def mat_identity_def mat_set_def upt_rec trig_eval)

lemma simd_test_instance:
  assumes "mat4_rotate_x (f32 (7 / 10)) = Some A" and "mat4_rotate_y (f32 (13 / 10)) = Some B"
  shows "mat4_mul False True sse2 A B = mat4_mul False True none A B"
proof -
  from assms(1) have A: "A = [[Num False 1, Num False 0, Num False 0, Num False 0],
           [Num False 0, Num False (5167 / 16384), Num False (10808451 / 16777216), Num False 0],
           [Num False 0, Num True (10808451 / 16777216), Num False (5167 / 16384), Num False 0],
           [Num False 0, Num False 0, Num False 0, Num False 1]]"
    by (simp only: rotate_x_07 option.inject)
  from assms(2) have B: "B = [[Num False (1748563 / 33554432), Num False 0, Num True (16186229 / 16777216), Num False 0],
           [Num False 0, Num False 1, Num False 0, Num False 0],
           [Num False (16186229 / 16777216), Num False 0, Num False (1748563 / 33554432), Num False 0],
           [Num False 0, Num False 0, Num False 0, Num False 1]]"
    by (simp only: rotate_y_13 option.inject)
  have s: "mat4_mul_sse2 A B = [[Num False (1748563 / 33554432), Num False (10427717 / 16777216),
    Num True (5104629 / 16777216), Num False 0],
   [Num False 0, Num False (5167 / 16384), Num False (10808451 / 16777216),
    Num False 0],
   [Num False (16186229 / 16777216), Num True (2252967 / 67108864),
    Num False (8823071 / 536870912), Num False 0],
   [Num False 0, Num False 0, Num False 0, Num False 1]]"
    unfolding A B
    by (simp add: mat4_mul_sse2_def simd_eval upt_rec float_eval)
  have g: "mat_mul A B = [[Num False (1748563 / 33554432), Num False (10427717 / 16777216),
    Num True (5104629 / 16777216), Num False 0],
   [Num False 0, Num False (5167 / 16384), Num False (10808451 / 16777216),
    Num False 0],
   [Num False (16186229 / 16777216), Num True (2252967 / 67108864),
    Num False (8823071 / 536870912), Num False 0],
   [Num False 0, Num False 0, Num False 0, Num False 1]]"
    unfolding A B
    by (simp add: mat_mul_def upt_rec float_eval)
  show ?thesis
    by (simp only: mat4_mul_def s g) simp
qed

text \<open>
  C1. \<open>vec4_dot\<close> and \<open>mat4_mul\<close> give bit-identical results with the ceiling at \<open>none\<close>
  and at the hardware level. They do not: the scalar loops add the four products from
  left to right, \<open>((p0 + p1) + p2) + p3\<close>, \<open>dot_sse2\<close> and \<open>mat4_mul_sse2\<close> add them in
  pairs, \<open>(p0 + p1) + (p2 + p3)\<close>, and \<open>dot_neon\<close> as \<open>(p0 + p2) + (p1 + p3)\<close>. With the
  products \<open>2^24, 0, 1, 1\<close> the scalar sum is \<open>2^24\<close> and the sum in pairs \<open>2^24 + 2\<close>.
\<close>

theorem simd_paths_differ:
  "vec4_dot False True none [f32 16777216, f32 0, f32 1, f32 1] [f32 1, f32 1, f32 1, f32 1]
     = f32 16777216 \<and>
   vec4_dot False True sse2 [f32 16777216, f32 0, f32 1, f32 1] [f32 1, f32 1, f32 1, f32 1]
     = f32 16777218 \<and>
   vec4_dot True False none [f32 16777216, f32 1, f32 0, f32 1] [f32 1, f32 1, f32 1, f32 1]
     = f32 16777216 \<and>
   vec4_dot True False neon [f32 16777216, f32 1, f32 0, f32 1] [f32 1, f32 1, f32 1, f32 1]
     = f32 16777218 \<and>
   mat4_mul False True none
     [[f32 16777216, f32 0, f32 0, f32 0], [f32 0, f32 1, f32 0, f32 0],
      [f32 1, f32 0, f32 1, f32 0], [f32 1, f32 0, f32 0, f32 1]]
     [[f32 1, f32 1, f32 1, f32 1], [f32 0, f32 1, f32 0, f32 0],
      [f32 0, f32 0, f32 1, f32 0], [f32 0, f32 0, f32 0, f32 1]] ! 0 ! 0
     = f32 16777216 \<and>
   mat4_mul False True sse2
     [[f32 16777216, f32 0, f32 0, f32 0], [f32 0, f32 1, f32 0, f32 0],
      [f32 1, f32 0, f32 1, f32 0], [f32 1, f32 0, f32 0, f32 1]]
     [[f32 1, f32 1, f32 1, f32 1], [f32 0, f32 1, f32 0, f32 0],
      [f32 0, f32 0, f32 1, f32 0], [f32 0, f32 0, f32 0, f32 1]] ! 0 ! 0
     = f32 16777218 \<and>
   f32 16777216 \<noteq> f32 16777218"
  by (simp add: vec4_dot_def vec_dot_def dot_sse2_def dot_neon_def mat4_mul_def mat_mul_def
      mat4_mul_sse2_def simd_eval upt_rec float_eval)

section \<open>A quaternion times its conjugate\<close>



text \<open>
  The condition on the mixed products cannot be dropped: when one of them is a NaN or an
  infinity, the vector part is not \<open>(+0,+0,+0)\<close>, as the component that cancels the product
  is a NaN.
\<close>

lemma mixed_products_needed:
  assumes len: "length (qv q) = 3"
    and prod: "\<not> list_all is_finite (mixed_products q)"
  shows "qv (quat_mul False q (quat_conj q)) \<noteq> [fzero, fzero, fzero]"
proof -
  from len obtain a b c where v: "qv q = [a, b, c]"
    by (auto simp: length_Suc_conv numeral_3_eq_3)
  define d where "d = qw q"
  have neg: "vec_neg [a, b, c] = [fneg a, fneg b, fneg c]"
    by (simp add: vec_neg_def upt_rec)
  have qvm: "qv (quat_mul False q (quat_conj q)) =
      [fadd (fadd (fsub (fneg (fmul b c)) (fneg (fmul b c))) (fmul a d)) (fneg (fmul a d)),
       fadd (fadd (fsub (fneg (fmul c a)) (fneg (fmul c a))) (fmul b d)) (fneg (fmul b d)),
       fadd (fadd (fsub (fneg (fmul a b)) (fneg (fmul a b))) (fmul c d)) (fneg (fmul c d))]"
    by (simp add: quat_mul_def quat_conj_def v neg vec3_cross_def vec_add_def vec_scale_def
        upt_rec fmul_fneg_right fmul_fneg_left fmul_commute [of c b] fmul_commute [of a c]
        fmul_commute [of b a] flip: d_def)
  have w: "fadd (fadd x y) (fneg y) \<noteq> fzero" if "\<not> is_finite y" for x y
    using that by (simp add: add_cancel_not_finite fzero_def)
  have x: "fadd (fadd (fsub (fneg y) (fneg y)) z) (fneg z) \<noteq> fzero" if "\<not> is_finite y" for y z
    using that by (simp add: fsub_self_not_finite fneg_finite fzero_def)
  from prod consider "\<not> is_finite (fmul b c)" | "\<not> is_finite (fmul c a)"
    | "\<not> is_finite (fmul a b)" | "\<not> is_finite (fmul a d)" | "\<not> is_finite (fmul b d)"
    | "\<not> is_finite (fmul c d)"
    by (auto simp: mixed_products_def v d_def)
  then show ?thesis
    by cases (simp_all add: qvm w x)
qed


end
